theory Spec2Isabelle
  imports Main "HOL-Library.AList" "HOL-Library.DAList" "HOL-Library.FSet"
begin

section \<open>Data model\<close>

text \<open>
  A \<open>WebSocket\<close> object is known to the connection manager only by its identity (it is
  hashed into a Python \<open>set\<close>), so a connection is modelled by a number naming the object.
\<close>

type_synonym websocket = nat

text \<open>
  The exceptions of the model are the instances of Python's \<open>Exception\<close>: exactly what
  the handlers \<open>except Exception\<close> of the source catch. \<open>RecursionError\<close> is what
  \<open>json.loads\<close> raises on a text nested deeper than the interpreter's recursion limit;
  it is not a \<open>JSONDecodeError\<close>.
\<close>

datatype exn =
  WebSocketDisconnect | JSONDecodeError | AttributeError | KeyError | RuntimeError | RecursionError

datatype json =
    JNull
  | JBool bool
  | JNum int
  | JStr string
  | JArr "json list"
  | JObj "(string \<times> json) list"

text \<open>
  \<open>ConnectionManager\<close> (\<open>websocket_manager.py\<close>): \<open>active_connections\<close> is a
  \<open>Dict[str, Set[WebSocket]]\<close>, a dictionary with distinct keys that keeps insertion
  order, and \<open>connection_count\<close> is a Python integer.
\<close>

record manager =
  active_connections :: "(string, websocket fset) alist"
  connection_count :: int

definition manager_init :: manager where
  "manager_init = \<lparr>active_connections = DAList.empty, connection_count = 0\<rparr>"

text \<open>
  What the program does to the outside is recorded in the \<open>world\<close>: the global manager
  instance \<open>ws_manager\<close>, every call of \<open>send_json\<close> (the connection, the message and
  the exception the call raised, \<open>None\<close> when the message was delivered), the
  \<open>close\<close> calls, and how many times \<open>datetime.now()\<close> has been read.
\<close>

record world =
  ws_manager :: manager
  send_calls :: "(websocket \<times> json \<times> exn option) list"
  closed :: "(websocket \<times> nat \<times> string) list"
  now_reads :: nat

text \<open>
  What the outside does to the program is the \<open>env\<close>: which calls on a WebSocket
  raise; what \<open>jwt.decode\<close> answers (\<open>None\<close> for a \<open>JWTError\<close>, otherwise the
  \<open>sub\<close> entry of the payload, if it has one); what the query for the \<open>Admin\<close> row
  answers (\<open>None\<close> when there is no such row, otherwise its \<open>is_active\<close>) and what the
  statistics queries answer, each raising when the database does; what \<open>json.loads\<close>
  returns; and the successive readings of the clock.
\<close>

record env =
  accept_raises :: "websocket \<Rightarrow> exn option"
  send_raises :: "websocket \<Rightarrow> exn option"
  close_raises :: "websocket \<Rightarrow> exn option"
  jwt_decode :: "string \<Rightarrow> string option option"
  admin_is_active :: "string \<Rightarrow> exn + bool option"
  query_stats :: "exn + json"
  json_loads :: "string \<Rightarrow> exn + json"
  clock :: "nat \<Rightarrow> string"

section \<open>Library calls\<close>

text \<open>
  A procedure returns the exception it raised, if any, together with the world it left.
\<close>

definition accept :: "env \<Rightarrow> websocket \<Rightarrow> world \<Rightarrow> exn option \<times> world" where
  "accept E ws w = (accept_raises E ws, w)"

definition send_json :: "env \<Rightarrow> websocket \<Rightarrow> json \<Rightarrow> world \<Rightarrow> exn option \<times> world" where
  "send_json E ws message w =
     (send_raises E ws, w\<lparr>send_calls := send_calls w @ [(ws, message, send_raises E ws)]\<rparr>)"

definition close :: "env \<Rightarrow> websocket \<Rightarrow> nat \<Rightarrow> string \<Rightarrow> world \<Rightarrow> exn option \<times> world" where
  "close E ws code reason w =
     (case close_raises E ws of
        Some e \<Rightarrow> (Some e, w)
      | None \<Rightarrow> (None, w\<lparr>closed := closed w @ [(ws, code, reason)]\<rparr>))"

definition isoformat_now :: "env \<Rightarrow> world \<Rightarrow> string \<times> world" where
  "isoformat_now E w = (clock E (now_reads w), w\<lparr>now_reads := Suc (now_reads w)\<rparr>)"

section \<open>The connection manager\<close>

definition send_personal_message ::
  "env \<Rightarrow> json \<Rightarrow> websocket \<Rightarrow> world \<Rightarrow> exn option \<times> world" where
  "send_personal_message E message ws w =
     (case send_json E ws message w of
        (None, w') \<Rightarrow> (None, w')
      | (Some e, w') \<Rightarrow> (None, w'))"

definition connection_established :: "string \<Rightarrow> json" where
  "connection_established ts =
     JObj [(''type'', JStr ''connection_established''),
           (''message'', JStr ''Real-time connection established''),
           (''timestamp'', JStr ts)]"

definition connect :: "env \<Rightarrow> websocket \<Rightarrow> string \<Rightarrow> world \<Rightarrow> exn option \<times> world" where
  "connect E ws admin_username w =
     (case accept E ws w of
        (Some e, w1) \<Rightarrow> (Some e, w1)
      | (None, w1) \<Rightarrow>
          (let m = ws_manager w1;
               d0 = (if DAList.lookup (active_connections m) admin_username = None
                     then DAList.update admin_username {||} (active_connections m)
                     else active_connections m)
           in case DAList.lookup d0 admin_username of
                None \<Rightarrow> (Some KeyError, w1\<lparr>ws_manager := m\<lparr>active_connections := d0\<rparr>\<rparr>)
              | Some s \<Rightarrow>
                  (let w2 = w1\<lparr>ws_manager :=
                              \<lparr>active_connections = DAList.update admin_username (finsert ws s) d0,
                               connection_count = connection_count m + 1\<rparr>\<rparr>;
                       (ts, w3) = isoformat_now E w2
                   in send_personal_message E (connection_established ts) ws w3)))"

definition disconnect :: "websocket \<Rightarrow> string \<Rightarrow> manager \<Rightarrow> manager" where
  "disconnect ws admin_username m =
     (case DAList.lookup (active_connections m) admin_username of
        None \<Rightarrow> m
      | Some s \<Rightarrow>
          (let s' = s |-| {|ws|};
               d1 = DAList.update admin_username s' (active_connections m);
               c1 = connection_count m - 1
           in if s' = {||}
              then \<lparr>active_connections = DAList.delete admin_username d1, connection_count = c1\<rparr>
              else \<lparr>active_connections = d1, connection_count = c1\<rparr>))"

definition get_connection_count :: "manager \<Rightarrow> int" where
  "get_connection_count m = connection_count m"

definition get_connected_admins :: "manager \<Rightarrow> string list" where
  "get_connected_admins m = map fst (DAList.impl_of (active_connections m))"

text \<open>
  \<open>broadcast\<close>, run with no other task changing the manager before it returns (the run
  among other tasks is \<open>broadcast_live\<close> below; \<open>broadcast_live_quiet\<close> relates the
  two): the inner loop over the copy of one administrator's set (a Python set
  has no specified iteration order; the model takes the connections in increasing order),
  the outer loop over the items of the dictionary, then the clean-up loop over the list
  \<open>disconnected\<close>. \<open>exclude_admin\<close> is \<open>None\<close> or a string, and the test
  \<open>exclude_admin and admin_username == exclude_admin\<close> is Python truthiness: it fails
  for \<open>None\<close> and for the empty string.
\<close>

fun broadcast_connections ::
  "env \<Rightarrow> json \<Rightarrow> string \<Rightarrow> websocket list \<Rightarrow>
   (websocket \<times> string) list \<times> world \<Rightarrow> (websocket \<times> string) list \<times> world" where
  "broadcast_connections E message admin_username [] st = st"
| "broadcast_connections E message admin_username (connection # rest) (disconnected, w) =
     (case send_json E connection message w of
        (None, w') \<Rightarrow> broadcast_connections E message admin_username rest (disconnected, w')
      | (Some e, w') \<Rightarrow>
          broadcast_connections E message admin_username rest
            (disconnected @ [(connection, admin_username)], w'))"

definition skipped :: "string option \<Rightarrow> string \<Rightarrow> bool" where
  "skipped exclude_admin admin_username =
     (case exclude_admin of
        None \<Rightarrow> False
      | Some x \<Rightarrow> x \<noteq> [] \<and> admin_username = x)"

fun broadcast_items ::
  "env \<Rightarrow> json \<Rightarrow> string option \<Rightarrow> (string \<times> websocket fset) list \<Rightarrow>
   (websocket \<times> string) list \<times> world \<Rightarrow> (websocket \<times> string) list \<times> world" where
  "broadcast_items E message exclude_admin [] st = st"
| "broadcast_items E message exclude_admin ((admin_username, connections) # rest) st =
     (if skipped exclude_admin admin_username
      then broadcast_items E message exclude_admin rest st
      else broadcast_items E message exclude_admin rest
             (broadcast_connections E message admin_username
                (sorted_list_of_fset connections) st))"

fun cleanup :: "(websocket \<times> string) list \<Rightarrow> manager \<Rightarrow> manager" where
  "cleanup [] m = m"
| "cleanup ((connection, admin_username) # rest) m =
     cleanup rest (disconnect connection admin_username m)"

definition broadcast :: "env \<Rightarrow> json \<Rightarrow> string option \<Rightarrow> world \<Rightarrow> exn option \<times> world" where
  "broadcast E message exclude_admin w =
     (let (disconnected, w1) =
            broadcast_items E message exclude_admin
              (DAList.impl_of (active_connections (ws_manager w))) ([], w)
      in (None, w1\<lparr>ws_manager := cleanup disconnected (ws_manager w1)\<rparr>))"

subsection \<open>Broadcast among other tasks\<close>

text \<open>
  \<open>broadcast\<close> is a coroutine: while it is suspended in \<open>await connection.send_json\<close>
  other tasks run, and what they do to the shared manager is \<open>connect\<close> and
  \<open>disconnect\<close>. A \<open>schedule\<close> gives, for each connection, the operations of the other
  tasks that run while the send to that connection is suspended.
\<close>

datatype op = Connect websocket string | Disconnect websocket string

fun run_op :: "env \<Rightarrow> op \<Rightarrow> world \<Rightarrow> world" where
  "run_op E (Connect ws admin_username) w = snd (connect E ws admin_username w)"
| "run_op E (Disconnect ws admin_username) w =
     w\<lparr>ws_manager := disconnect ws admin_username (ws_manager w)\<rparr>"

text \<open>
  Whether an operation deletes a key of the dictionary: only \<open>disconnect\<close> does
  (\<open>del self.active_connections[admin_username]\<close>), when it empties the set.
\<close>

fun removes_key :: "op \<Rightarrow> world \<Rightarrow> bool" where
  "removes_key (Connect ws admin_username) w = False"
| "removes_key (Disconnect ws admin_username) w =
     (DAList.lookup (active_connections (ws_manager w)) admin_username \<noteq> None \<and>
      DAList.lookup (active_connections (disconnect ws admin_username (ws_manager w)))
        admin_username = None)"

text \<open>
  The operations of the other tasks run one after the other. Next to the world goes a
  flag: whether a key has been deleted from the dictionary since the iterator of the
  running \<open>broadcast\<close> was made.
\<close>

fun run_ops :: "env \<Rightarrow> op list \<Rightarrow> bool \<times> world \<Rightarrow> bool \<times> world" where
  "run_ops E [] st = st"
| "run_ops E (p # ps) (removed, w) = run_ops E ps (removed \<or> removes_key p w, run_op E p w)"

type_synonym schedule = "websocket \<Rightarrow> op list"

definition send_json_await ::
  "env \<Rightarrow> schedule \<Rightarrow> websocket \<Rightarrow> json \<Rightarrow> bool \<times> world \<Rightarrow> exn option \<times> bool \<times> world" where
  "send_json_await E sch ws message st =
     (case st of (removed, w) \<Rightarrow>
        (case send_json E ws message w of (r, w') \<Rightarrow> (r, run_ops E (sch ws) (removed, w'))))"

text \<open>
  The outer loop \<open>for admin_username, connections in self.active_connections.items()\<close>
  reads the dictionary of the manager itself through an iterator. Only the set of one
  administrator is copied (\<open>connections.copy()\<close>), when the inner loop starts.

  The iterator of a Python dictionary remembers the size of the dictionary when it was
  made (\<open>di_used\<close>) and walks the table of entries of the dictionary. Each step first
  compares the sizes and raises \<open>RuntimeError\<close> (dictionary changed size during
  iteration) when they differ. The dictionary of the model is the list of the live
  entries in insertion order; it does not hold the table of entries (where a deleted key
  leaves a hole, and which an insertion may rebuild). So a step is determined by the
  model in two cases only:
  \<^item> the sizes differ: the step raises, whatever the table;
  \<^item> the sizes agree and no key has been deleted since the iterator was made: then no
    key has been inserted either, the table is the one the iterator started on, and the
    step yields the live entry at the iterator's position (\<open>di_pos\<close> counts the entries
    yielded so far) or stops after the last one.
  In the remaining case (the sizes agree after a deletion made up for by an insertion)
  what the step does depends on the table: the step is \<open>Undetermined\<close>, and so is the
  run of \<open>broadcast\<close> from there.
\<close>

record dictiter =
  di_used :: nat
  di_pos :: nat

datatype ('k, 'v) step = Item "'k \<times> 'v" dictiter | StopIteration | Raises exn | Undetermined

definition dict_iter :: "('k, 'v) alist \<Rightarrow> dictiter" where
  "dict_iter d = \<lparr>di_used = length (DAList.impl_of d), di_pos = 0\<rparr>"

definition dictiter_next :: "dictiter \<Rightarrow> bool \<Rightarrow> ('k, 'v) alist \<Rightarrow> ('k, 'v) step" where
  "dictiter_next it removed d =
     (if di_used it \<noteq> length (DAList.impl_of d) then Raises RuntimeError
      else if removed then Undetermined
      else if di_pos it < length (DAList.impl_of d)
      then Item (DAList.impl_of d ! di_pos it) (it\<lparr>di_pos := Suc (di_pos it)\<rparr>)
      else StopIteration)"

fun live_connections ::
  "env \<Rightarrow> schedule \<Rightarrow> json \<Rightarrow> string \<Rightarrow> websocket list \<Rightarrow>
   (websocket \<times> string) list \<times> bool \<times> world \<Rightarrow> (websocket \<times> string) list \<times> bool \<times> world" where
  "live_connections E sch message admin_username [] st = st"
| "live_connections E sch message admin_username (connection # rest) (disconnected, st) =
     (case send_json_await E sch connection message st of
        (None, st') \<Rightarrow> live_connections E sch message admin_username rest (disconnected, st')
      | (Some e, st') \<Rightarrow>
          live_connections E sch message admin_username rest
            (disconnected @ [(connection, admin_username)], st'))"

text \<open>The outer loop; \<open>None\<close> when a step of the iterator is undetermined.\<close>

function live_items ::
  "env \<Rightarrow> schedule \<Rightarrow> json \<Rightarrow> string option \<Rightarrow> dictiter \<Rightarrow>
   (websocket \<times> string) list \<times> bool \<times> world \<Rightarrow>
   (exn option \<times> (websocket \<times> string) list \<times> world) option" where
  "live_items E sch message exclude_admin it (disconnected, removed, w) =
     (case dictiter_next it removed (active_connections (ws_manager w)) of
        Undetermined \<Rightarrow> None
      | Raises e \<Rightarrow> Some (Some e, disconnected, w)
      | StopIteration \<Rightarrow> Some (None, disconnected, w)
      | Item (admin_username, connections) it' \<Rightarrow>
          if skipped exclude_admin admin_username
          then live_items E sch message exclude_admin it' (disconnected, removed, w)
          else live_items E sch message exclude_admin it'
                 (live_connections E sch message admin_username
                    (sorted_list_of_fset connections) (disconnected, removed, w)))"
  by pat_completeness auto
termination
  by (relation "measure (\<lambda>(E, sch, message, exclude_admin, it, st). di_used it - di_pos it)")
     (auto simp: dictiter_next_def split: if_splits)

text \<open>
  An exception of the outer loop leaves \<open>broadcast\<close>, and the clean-up loop is not
  reached.
\<close>

definition broadcast_live ::
  "env \<Rightarrow> schedule \<Rightarrow> json \<Rightarrow> string option \<Rightarrow> world \<Rightarrow> (exn option \<times> world) option" where
  "broadcast_live E sch message exclude_admin w =
     (case live_items E sch message exclude_admin
             (dict_iter (active_connections (ws_manager w))) ([], False, w) of
        None \<Rightarrow> None
      | Some (Some e, disconnected, w1) \<Rightarrow> Some (Some e, w1)
      | Some (None, disconnected, w1) \<Rightarrow>
          Some (None, w1\<lparr>ws_manager := cleanup disconnected (ws_manager w1)\<rparr>))"

section \<open>The session handler\<close>

text \<open>\<open>verify_token\<close> (\<open>auth.py\<close>).\<close>

definition verify_token :: "env \<Rightarrow> string \<Rightarrow> string option" where
  "verify_token E token =
     (case jwt_decode E token of
        None \<Rightarrow> None
      | Some payload_sub \<Rightarrow>
          (case payload_sub of
             None \<Rightarrow> None
           | Some username \<Rightarrow> Some username))"

definition pong :: "string \<Rightarrow> json" where
  "pong ts = JObj [(''type'', JStr ''pong''), (''timestamp'', JStr ts)]"

definition stats_update :: "json \<Rightarrow> string \<Rightarrow> json" where
  "stats_update data ts =
     JObj [(''type'', JStr ''stats_update''), (''data'', data), (''timestamp'', JStr ts)]"

text \<open>
  \<open>message.get("type")\<close>: only a JSON object is parsed to a \<open>dict\<close>; every other
  parsed value (list, string, number, boolean, \<open>None\<close>) has no attribute \<open>get\<close>.
\<close>

definition message_get_type :: "json \<Rightarrow> exn + json option" where
  "message_get_type message =
     (case message of
        JObj kvs \<Rightarrow> Inr (map_of kvs ''type'')
      | _ \<Rightarrow> Inl AttributeError)"

text \<open>
  The body of the inner \<open>try\<close> of \<open>websocket_endpoint\<close> (\<open>main.py\<close>), then the
  \<open>try\<close> with its handler \<open>except json.JSONDecodeError: pass\<close>.
\<close>

definition handle_message_body :: "env \<Rightarrow> websocket \<Rightarrow> string \<Rightarrow> world \<Rightarrow> exn option \<times> world" where
  "handle_message_body E ws data w =
     (case json_loads E data of
        Inl e \<Rightarrow> (Some e, w)
      | Inr message \<Rightarrow>
          (case message_get_type message of
             Inl e \<Rightarrow> (Some e, w)
           | Inr t \<Rightarrow>
               if t = Some (JStr ''ping'') then
                 (let (ts, w1) = isoformat_now E w
                  in send_json E ws (pong ts) w1)
               else if t = Some (JStr ''request_stats'') then
                 (case query_stats E of
                    Inl e \<Rightarrow> (Some e, w)
                  | Inr stats \<Rightarrow>
                      (let (ts, w1) = isoformat_now E w
                       in send_personal_message E (stats_update stats ts) ws w1))
               else (None, w)))"

definition handle_message :: "env \<Rightarrow> websocket \<Rightarrow> string \<Rightarrow> world \<Rightarrow> exn option \<times> world" where
  "handle_message E ws data w =
     (case handle_message_body E ws data w of
        (Some e, w') \<Rightarrow> if e = JSONDecodeError then (None, w') else (Some e, w')
      | (None, w') \<Rightarrow> (None, w'))"

text \<open>
  The loop \<open>while True\<close> leaves only by an exception. Its input is the list of the
  outcomes of the successive calls of \<open>receive_text\<close>: a text, or the exception the call
  raises. When the list is used up the handler is suspended in \<open>receive_text\<close>.
\<close>

datatype loop_exit = Awaiting | Raised exn

fun receive_loop :: "env \<Rightarrow> websocket \<Rightarrow> (exn + string) list \<Rightarrow> world \<Rightarrow> loop_exit \<times> world" where
  "receive_loop E ws [] w = (Awaiting, w)"
| "receive_loop E ws (Inl e # inbound) w = (Raised e, w)"
| "receive_loop E ws (Inr data # inbound) w =
     (case handle_message E ws data w of
        (Some e, w') \<Rightarrow> (Raised e, w')
      | (None, w') \<Rightarrow> receive_loop E ws inbound w')"

datatype outcome = Returned | Suspended

text \<open>
  \<open>websocket_endpoint\<close>: the body of the outer \<open>try\<close>, then the handler
  \<open>except Exception\<close>, which closes the socket and swallows whatever that raises.
\<close>

definition endpoint_try :: "env \<Rightarrow> websocket \<Rightarrow> string \<Rightarrow> (exn + string) list \<Rightarrow> world \<Rightarrow> (exn + outcome) \<times> world" where
  "endpoint_try E ws token inbound w =
     (case verify_token E token of
        None \<Rightarrow>
          (case close E ws 1008 ''Invalid authentication token'' w of
             (Some e, w') \<Rightarrow> (Inl e, w')
           | (None, w') \<Rightarrow> (Inr Returned, w'))
      | Some admin_username \<Rightarrow>
          if admin_username = [] then
            (case close E ws 1008 ''Invalid authentication token'' w of
               (Some e, w') \<Rightarrow> (Inl e, w')
             | (None, w') \<Rightarrow> (Inr Returned, w'))
          else
            (case admin_is_active E admin_username of
               Inl e \<Rightarrow> (Inl e, w)
             | Inr row \<Rightarrow>
                 if row = None \<or> row = Some False then
                   (case close E ws 1008 ''Admin not found or inactive'' w of
                      (Some e, w') \<Rightarrow> (Inl e, w')
                    | (None, w') \<Rightarrow> (Inr Returned, w'))
                 else
                   (case connect E ws admin_username w of
                      (Some e, w1) \<Rightarrow> (Inl e, w1)
                    | (None, w1) \<Rightarrow>
                        (case receive_loop E ws inbound w1 of
                           (Awaiting, w2) \<Rightarrow> (Inr Suspended, w2)
                         | (Raised e, w2) \<Rightarrow>
                             if e = WebSocketDisconnect then
                               (Inr Returned,
                                w2\<lparr>ws_manager := disconnect ws admin_username (ws_manager w2)\<rparr>)
                             else (Inl e, w2)))))"

definition websocket_endpoint :: "env \<Rightarrow> websocket \<Rightarrow> string \<Rightarrow> (exn + string) list \<Rightarrow> world \<Rightarrow> outcome \<times> world" where
  "websocket_endpoint E ws token inbound w =
     (case endpoint_try E ws token inbound w of
        (Inr out, w') \<Rightarrow> (out, w')
      | (Inl e, w') \<Rightarrow>
          (case close E ws 1008 ''Authentication failed'' w' of
             (_, w'') \<Rightarrow> (Returned, w'')))"

section \<open>Concrete environments and states\<close>

definition world_init :: world where
  "world_init = \<lparr>ws_manager = manager_init, send_calls = [], closed = [], now_reads = 0\<rparr>"

text \<open>
  \<open>json.loads\<close> on the inbound texts used below: a ping object, an empty JSON array,
  a thousand opening brackets (\<open>'[' * 1000\<close>, on which the parser exceeds the recursion
  limit), and anything else taken as text on which it raises \<open>JSONDecodeError\<close>.
\<close>

definition demo_loads :: "string \<Rightarrow> exn + json" where
  "demo_loads data =
     (if data = ''{\"type\": \"ping\"}'' then Inr (JObj [(''type'', JStr ''ping'')])
      else if data = ''[]'' then Inr (JArr [])
      else if data = replicate 1000 (CHR ''['') then Inl RecursionError
      else Inl JSONDecodeError)"

text \<open>An environment in which no call raises and the token \<open>good\<close> names \<open>admin\<close>.\<close>

definition calm :: env where
  "calm = \<lparr>accept_raises = (\<lambda>_. None), send_raises = (\<lambda>_. None), close_raises = (\<lambda>_. None),
            jwt_decode = (\<lambda>t. if t = ''good'' then Some (Some ''admin'') else None),
            admin_is_active = (\<lambda>u. Inr (if u = ''admin'' then Some True else None)),
            query_stats = Inr (JObj []),
            json_loads = demo_loads,
            clock = (\<lambda>n. ''2024-01-01T00:00:00'')\<rparr>"

text \<open>The same environment, except that every send to connection 3 raises.\<close>

definition flaky :: env where
  "flaky = calm\<lparr>send_raises := (\<lambda>c. if c = 3 then Some RuntimeError else None)\<rparr>"

text \<open>
  Three administrators: \<open>alice\<close> with connections 1 and 2, \<open>bob\<close> with connection 3,
  \<open>carol\<close> with connection 4.
\<close>

definition crowd :: world where
  "crowd = world_init\<lparr>ws_manager :=
     \<lparr>active_connections =
        DAList.update ''carol'' {|4|}
          (DAList.update ''bob'' {|3|}
             (DAList.update ''alice'' {|1, 2|} DAList.empty)),
      connection_count = 4\<rparr>\<rparr>"

text \<open>One connection registered under the empty identity.\<close>

definition anonymous :: world where
  "anonymous = world_init\<lparr>ws_manager :=
     \<lparr>active_connections = DAList.update '''' {|1|} DAList.empty, connection_count = 1\<rparr>\<rparr>"

text \<open>
  While the send to connection 1 is suspended, a session of \<open>dave\<close> connects on
  connection 9.
\<close>

definition newcomer :: schedule where
  "newcomer c = (if c = 1 then [Connect 9 ''dave''] else [])"

text \<open>
  While the send to connection 1 is suspended, the session of \<open>bob\<close> on connection 3
  disconnects.
\<close>

definition leaver :: schedule where
  "leaver c = (if c = 1 then [Disconnect 3 ''bob''] else [])"

text \<open>
  While the send to connection 1 is suspended, the session of \<open>bob\<close> disconnects and a
  session of \<open>dave\<close> connects.
\<close>

definition swap :: schedule where
  "swap c = (if c = 1 then [Disconnect 3 ''bob'', Connect 9 ''dave''] else [])"

text \<open>
  The (connection, administrator) pairs on which \<open>broadcast\<close> calls \<open>send_json\<close>, in the
  order of the two nested loops.
\<close>

definition targets :: "string option \<Rightarrow> (string \<times> websocket fset) list \<Rightarrow> (websocket \<times> string) list" where
  "targets exclude_admin items =
     concat (map (\<lambda>(a, s). map (\<lambda>c. (c, a)) (sorted_list_of_fset s))
                 (filter (\<lambda>(a, s). \<not> skipped exclude_admin a) items))"

text \<open>The number of registered (identity, connection) pairs.\<close>

definition registered_pairs :: "manager \<Rightarrow> nat" where
  "registered_pairs m = sum_list (map (\<lambda>(a, s). fcard s) (DAList.impl_of (active_connections m)))"

text \<open>The registry \<open>m'\<close> is a sub-map of \<open>m\<close>: no new identity, no new connection.\<close>

definition shrinks :: "manager \<Rightarrow> manager \<Rightarrow> bool" where
  "shrinks m' m \<longleftrightarrow>
     (\<forall>a s'. DAList.lookup (active_connections m') a = Some s' \<longrightarrow>
        (\<exists>s. DAList.lookup (active_connections m) a = Some s \<and> s' |\<subseteq>| s))"

text \<open>No identity of the mapping has an empty set.\<close>

definition no_empty_set :: "manager \<Rightarrow> bool" where
  "no_empty_set m \<longleftrightarrow> (\<forall>a s. DAList.lookup (active_connections m) a = Some s \<longrightarrow> s \<noteq> {||})"

section \<open>The registry\<close>

lemma lookup_disconnect:
  "DAList.lookup (active_connections (disconnect c a m)) b =
     (if b = a
      then (case DAList.lookup (active_connections m) a of
              None \<Rightarrow> None
            | Some s \<Rightarrow> if s |-| {|c|} = {||} then None else Some (s |-| {|c|}))
      else DAList.lookup (active_connections m) b)"
  by (auto simp: disconnect_def Let_def DAList.lookup_update split: option.splits)

lemma count_disconnect:
  "connection_count (disconnect c a m) =
     (if DAList.lookup (active_connections m) a = None then connection_count m
      else connection_count m - 1)"
  by (auto simp: disconnect_def Let_def split: option.splits)

text \<open>
  Whatever the connection, \<open>disconnect\<close> under a registered identity lowers the count;
  when the connection is not in the identity's set the mapping stays as it was.
\<close>

lemma disconnect_absent:
  "DAList.lookup (active_connections m) a = Some s \<Longrightarrow> c |\<notin>| s \<Longrightarrow> s \<noteq> {||} \<Longrightarrow>
   disconnect c a m =
     \<lparr>active_connections = active_connections m, connection_count = connection_count m - 1\<rparr>"
  apply (simp add: disconnect_def Let_def)
  apply (rule DAList.alist_ext)
  apply (simp add: DAList.update.rep_eq DAList.lookup.rep_eq)
  apply (simp add: update_triv)
  done

text \<open>\<open>connect\<close> and \<open>disconnect\<close> never leave an identity with an empty set.\<close>

lemma no_empty_set_init: "no_empty_set manager_init"
  by (simp add: no_empty_set_def manager_init_def)

lemma no_empty_set_disconnect: "no_empty_set m \<Longrightarrow> no_empty_set (disconnect c a m)"
  by (auto simp: no_empty_set_def lookup_disconnect split: option.splits if_splits)

lemma manager_send_personal_message:
  "ws_manager (snd (send_personal_message E msg ws w)) = ws_manager w"
  by (simp add: send_personal_message_def send_json_def split: option.splits)

lemma lookup_connect:
  "DAList.lookup (active_connections (ws_manager (snd (connect E ws a w)))) b =
     (if accept_raises E ws = None \<and> b = a
      then Some (finsert ws (case DAList.lookup (active_connections (ws_manager w)) a of
                               None \<Rightarrow> {||} | Some s \<Rightarrow> s))
      else DAList.lookup (active_connections (ws_manager w)) b)"
  by (auto simp: connect_def accept_def isoformat_now_def Let_def manager_send_personal_message
         DAList.lookup_update split: option.splits)

lemma no_empty_set_connect:
  "no_empty_set (ws_manager w) \<Longrightarrow> no_empty_set (ws_manager (snd (connect E ws a w)))"
  by (auto simp: no_empty_set_def lookup_connect split: if_splits)

text \<open>
  C1. The claim: after every sequence of \<open>connect\<close> and \<open>disconnect\<close> from the empty
  registry, \<open>get_connection_count\<close> equals the number of registered pairs. The code at
  the sequence connect 1, connect 2, disconnect 1, disconnect 1 (all for \<open>admin\<close>): the
  second \<open>disconnect\<close> finds the key, discards nothing and still decrements, so the count
  is 0 while the pair (\<open>admin\<close>, 2) is registered.
\<close>

theorem count_diverges_after_double_disconnect:
  "let w2 = snd (connect calm 2 ''admin'' (snd (connect calm 1 ''admin'' world_init)));
       m = disconnect 1 ''admin'' (disconnect 1 ''admin'' (ws_manager w2))
   in get_connection_count m = 0 \<and> registered_pairs m = 1 \<and>
      DAList.impl_of (active_connections m) = [(''admin'', {|2|})]"
  by code_simp

text \<open>
  C2. The claim: \<open>disconnect\<close> of a connection that is not in the identity's set changes
  nothing. The code with connection 2 registered for \<open>admin\<close> and count 1, at
  \<open>disconnect\<close> of connection 1 for \<open>admin\<close>: the mapping is unchanged and the count
  drops to 0.
\<close>

theorem disconnect_of_absent_connection_decrements:
  "let m = ws_manager (snd (connect calm 2 ''admin'' world_init));
       m' = disconnect 1 ''admin'' m
   in DAList.impl_of (active_connections m) = [(''admin'', {|2|})] \<and>
      get_connection_count m = 1 \<and>
      DAList.impl_of (active_connections m') = [(''admin'', {|2|})] \<and>
      get_connection_count m' = 0"
  by code_simp

text \<open>
  C9. \<open>send_personal_message\<close> returns without an exception whatever the send raises,
  and leaves the manager (mapping and count) as it was: the world differs only by the
  record of the send call.
\<close>

theorem send_personal_message_swallows:
  "send_personal_message E message ws w =
     (None, w\<lparr>send_calls := send_calls w @ [(ws, message, send_raises E ws)]\<rparr>) \<and>
   ws_manager (snd (send_personal_message E message ws w)) = ws_manager w"
  by (simp add: send_personal_message_def send_json_def split: option.splits)

section \<open>Broadcast\<close>

text \<open>The loops of \<open>broadcast\<close> in closed form.\<close>

lemma broadcast_connections_eq:
  "broadcast_connections E msg a cs (disc, w) =
     (disc @ map (\<lambda>c. (c, a)) (filter (\<lambda>c. send_raises E c \<noteq> None) cs),
      w\<lparr>send_calls := send_calls w @ map (\<lambda>c. (c, msg, send_raises E c)) cs\<rparr>)"
  by (induction cs arbitrary: disc w) (auto simp: send_json_def split: option.splits)

lemma targets_Nil [simp]: "targets x [] = []"
  by (simp add: targets_def)

lemma targets_Cons:
  "targets x ((a, s) # items) =
     (if skipped x a then targets x items
      else map (\<lambda>c. (c, a)) (sorted_list_of_fset s) @ targets x items)"
  by (simp add: targets_def)

lemma broadcast_items_eq:
  "broadcast_items E msg x items (disc, w) =
     (disc @ filter (\<lambda>(c, a). send_raises E c \<noteq> None) (targets x items),
      w\<lparr>send_calls := send_calls w @ map (\<lambda>(c, a). (c, msg, send_raises E c)) (targets x items)\<rparr>)"
proof (induction items arbitrary: disc w)
  case Nil
  show ?case by simp
next
  case (Cons p items)
  obtain a s where p: "p = (a, s)" by (cases p)
  show ?case
    by (simp add: p targets_Cons broadcast_connections_eq Cons.IH filter_map comp_def)
qed

lemma broadcast_eq:
  "broadcast E msg x w =
     (let ts = targets x (DAList.impl_of (active_connections (ws_manager w)))
      in (None,
          w\<lparr>send_calls := send_calls w @ map (\<lambda>(c, a). (c, msg, send_raises E c)) ts,
            ws_manager := cleanup (filter (\<lambda>(c, a). send_raises E c \<noteq> None) ts) (ws_manager w)\<rparr>))"
  by (simp add: broadcast_def broadcast_items_eq Let_def)

text \<open>The clean-up loop only removes.\<close>

lemma shrinks_refl: "shrinks m m"
  by (simp add: shrinks_def)

lemma shrinks_trans: "shrinks m3 m2 \<Longrightarrow> shrinks m2 m1 \<Longrightarrow> shrinks m3 m1"
  unfolding shrinks_def by (meson fsubset_trans)

lemma disconnect_shrinks: "shrinks (disconnect c a m) m"
  by (auto simp: shrinks_def lookup_disconnect split: option.splits if_splits)

lemma cleanup_shrinks: "shrinks (cleanup disc m) m"
proof (induction disc arbitrary: m)
  case Nil
  show ?case by (simp add: shrinks_refl)
next
  case (Cons p disc)
  obtain c a where p: "p = (c, a)" by (cases p)
  from Cons.IH [of "disconnect c a m"] disconnect_shrinks [of c a m]
  show ?case by (simp add: p) (rule shrinks_trans)
qed

lemma cleanup_count_le: "connection_count (cleanup disc m) \<le> connection_count m"
proof (induction disc arbitrary: m)
  case Nil
  show ?case by simp
next
  case (Cons p disc)
  obtain c a where p: "p = (c, a)" by (cases p)
  have "connection_count (disconnect c a m) \<le> connection_count m"
    by (simp add: count_disconnect)
  with Cons.IH [of "disconnect c a m"] show ?case by (simp add: p)
qed

lemma cleanup_removes:
  "(c, a) \<in> set disc \<Longrightarrow>
   DAList.lookup (active_connections (cleanup disc m)) a = Some s \<Longrightarrow> c |\<notin>| s"
proof (induction disc arbitrary: m)
  case Nil
  then show ?case by simp
next
  case (Cons p disc)
  obtain c' a' where p: "p = (c', a')" by (cases p)
  show ?case
  proof (cases "(c, a) \<in> set disc")
    case True
    with Cons.IH [of "disconnect c' a' m"] Cons.prems show ?thesis by (simp add: p)
  next
    case False
    with Cons.prems have eq: "c' = c" "a' = a" by (auto simp: p)
    from Cons.prems
    have "DAList.lookup (active_connections (cleanup disc (disconnect c a m))) a = Some s"
      by (simp add: p eq)
    with cleanup_shrinks [of disc "disconnect c a m"]
    obtain t where t: "DAList.lookup (active_connections (disconnect c a m)) a = Some t" "s |\<subseteq>| t"
      by (auto simp: shrinks_def)
    from t(1) have "c |\<notin>| t"
      by (auto simp: lookup_disconnect split: option.splits if_splits)
    with t(2) show ?thesis by auto
  qed
qed

text \<open>How often a connection is a target, and the targets as a set.\<close>

lemma filter_eq_distinct:
  "distinct xs \<Longrightarrow> filter (\<lambda>y. y = c) xs = (if c \<in> set xs then [c] else [])"
  by (induction xs) auto

lemma distinct_sorted_list_of_fset: "distinct (sorted_list_of_fset s)"
  by (simp add: sorted_list_of_fset.rep_eq)

lemma filter_sorted_list_of_fset:
  "filter (\<lambda>y. y = c) (sorted_list_of_fset s) = (if c |\<in>| s then [c] else [])"
  using filter_eq_distinct [OF distinct_sorted_list_of_fset, of c s] by simp

lemma targets_of_connection:
  "filter (\<lambda>(c', b). c' = c) (targets x items) =
     map (\<lambda>(a, s). (c, a)) (filter (\<lambda>(a, s). \<not> skipped x a \<and> c |\<in>| s) items)"
proof (induction items)
  case Nil
  show ?case by simp
next
  case (Cons p items)
  obtain a s where p: "p = (a, s)" by (cases p)
  have "filter (\<lambda>(c', b). c' = c) (map (\<lambda>c. (c, a)) (sorted_list_of_fset s)) =
        map (\<lambda>c. (c, a)) (filter (\<lambda>y. y = c) (sorted_list_of_fset s))"
    by (simp add: filter_map comp_def)
  then show ?case
    by (simp add: p targets_Cons Cons.IH filter_sorted_list_of_fset)
qed

lemma distinct_singleton_list:
  assumes d: "distinct xs" and s: "set xs = {y}"
  shows "xs = [y]"
proof -
  from d have "length xs = card (set xs)" by (simp add: distinct_card)
  with s have "length xs = 1" by simp
  then obtain z where "xs = [z]" by (cases xs) auto
  with s show ?thesis by simp
qed

lemma lookup_iff_item:
  "DAList.lookup d a = Some s \<longleftrightarrow> (a, s) \<in> set (DAList.impl_of d)"
  by (simp add: DAList.lookup.rep_eq)

lemma sole_owner_items:
  assumes own: "DAList.lookup d a = Some s" "c |\<in>| s" "\<not> skipped x a"
    and sole: "\<And>b t. DAList.lookup d b = Some t \<Longrightarrow> c |\<in>| t \<Longrightarrow> b = a"
  shows "filter (\<lambda>(a, s). \<not> skipped x a \<and> c |\<in>| s) (DAList.impl_of d) = [(a, s)]"
proof (rule distinct_singleton_list)
  show "distinct (filter (\<lambda>(a, s). \<not> skipped x a \<and> c |\<in>| s) (DAList.impl_of d))"
    using DAList.impl_of_distinct [of d] by (simp add: distinct_map)
  show "set (filter (\<lambda>(a, s). \<not> skipped x a \<and> c |\<in>| s) (DAList.impl_of d)) = {(a, s)}"
  proof (intro equalityI subsetI)
    fix p
    assume a: "p \<in> set (filter (\<lambda>(a, s). \<not> skipped x a \<and> c |\<in>| s) (DAList.impl_of d))"
    obtain b t where p: "p = (b, t)" by (cases p)
    from a p have bt: "(b, t) \<in> set (DAList.impl_of d)" "c |\<in>| t" by simp_all
    from bt(1) have l: "DAList.lookup d b = Some t" by (simp only: lookup_iff_item)
    from l bt(2) have "b = a" by (rule sole)
    with l own(1) have "t = s" by simp
    with \<open>b = a\<close> p show "p \<in> {(a, s)}" by simp
  next
    fix p
    assume "p \<in> {(a, s)}"
    then have p: "p = (a, s)" by simp
    from own(1) have "(a, s) \<in> set (DAList.impl_of d)" by (simp only: lookup_iff_item)
    with own p show "p \<in> set (filter (\<lambda>(a, s). \<not> skipped x a \<and> c |\<in>| s) (DAList.impl_of d))"
      by simp
  qed
qed

lemma set_targets:
  "set (targets x items) = {(c, a). \<exists>s. (a, s) \<in> set items \<and> \<not> skipped x a \<and> c |\<in>| s}"
  by (auto simp: targets_def)

lemma new_calls_broadcast:
  "drop (length (send_calls w)) (send_calls (snd (broadcast E msg x w))) =
     map (\<lambda>(c, a). (c, msg, send_raises E c))
       (targets x (DAList.impl_of (active_connections (ws_manager w))))"
  by (simp add: broadcast_eq Let_def)

lemma manager_after_broadcast:
  "ws_manager (snd (broadcast E msg x w)) =
     cleanup (filter (\<lambda>(c, a). send_raises E c \<noteq> None)
                (targets x (DAList.impl_of (active_connections (ws_manager w)))))
       (ws_manager w)"
  by (simp add: broadcast_eq Let_def)

lemma broadcast_returns: "fst (broadcast E msg x w) = None"
  by (simp add: broadcast_eq Let_def)

lemma delivered_once:
  assumes own: "DAList.lookup (active_connections (ws_manager w)) a = Some s" "c |\<in>| s"
      "\<not> skipped x a"
    and sole: "\<And>b t. DAList.lookup (active_connections (ws_manager w)) b = Some t \<Longrightarrow> c |\<in>| t \<Longrightarrow> b = a"
  shows "filter (\<lambda>(c', m, r). c' = c)
           (drop (length (send_calls w)) (send_calls (snd (broadcast E msg x w)))) =
         [(c, msg, send_raises E c)]"
proof -
  let ?ts = "targets x (DAList.impl_of (active_connections (ws_manager w)))"
  have "filter (\<lambda>(c', m, r). c' = c) (map (\<lambda>(c, a). (c, msg, send_raises E c)) ?ts) =
        map (\<lambda>(c, a). (c, msg, send_raises E c)) (filter (\<lambda>(c', b). c' = c) ?ts)"
    by (simp add: filter_map comp_def case_prod_unfold)
  also have "filter (\<lambda>(c', b). c' = c) ?ts = [(c, a)]"
    by (simp add: targets_of_connection sole_owner_items [OF own sole])
  finally show ?thesis by (simp add: new_calls_broadcast case_prod_unfold)
qed

lemma failing_is_evicted:
  assumes own: "DAList.lookup (active_connections (ws_manager w)) a = Some s" "c |\<in>| s"
      "\<not> skipped x a"
    and fails: "send_raises E c \<noteq> None"
  shows "\<not> (\<exists>s'. DAList.lookup (active_connections (ws_manager (snd (broadcast E msg x w)))) a = Some s'
              \<and> c |\<in>| s')"
proof -
  from own(1) have "(a, s) \<in> set (DAList.impl_of (active_connections (ws_manager w)))"
    by (simp only: lookup_iff_item)
  with own(2,3) have "(c, a) \<in> set (targets x (DAList.impl_of (active_connections (ws_manager w))))"
    by (auto simp: set_targets)
  with fails have "(c, a) \<in> set (filter (\<lambda>(c, a). send_raises E c \<noteq> None)
                (targets x (DAList.impl_of (active_connections (ws_manager w)))))"
    by simp
  from cleanup_removes [OF this] show ?thesis
    by (auto simp: manager_after_broadcast)
qed

text \<open>
  C3. \<open>broadcast\<close> returns without an exception. A registered connection of an
  identity that is not skipped, whose send does not fail and which is registered under
  that identity only, gets exactly one send call during the broadcast: the delivery of
  the message. A registered connection of an identity that is not skipped whose send
  fails is no longer registered under that identity when \<open>broadcast\<close> has returned.
  The clean-up runs after the whole fan-out (\<open>broadcast_eq\<close>).
\<close>

theorem broadcast_isolates_failures:
  "fst (broadcast E msg x w) = None \<and>
   (\<forall>a s c.
      DAList.lookup (active_connections (ws_manager w)) a = Some s \<and> c |\<in>| s \<and>
      \<not> skipped x a \<and> send_raises E c = None \<and>
      (\<forall>b t. DAList.lookup (active_connections (ws_manager w)) b = Some t \<and> c |\<in>| t \<longrightarrow> b = a)
      \<longrightarrow> filter (\<lambda>(c', m, r). c' = c)
            (drop (length (send_calls w)) (send_calls (snd (broadcast E msg x w)))) =
          [(c, msg, None)]) \<and>
   (\<forall>a s c.
      DAList.lookup (active_connections (ws_manager w)) a = Some s \<and> c |\<in>| s \<and>
      \<not> skipped x a \<and> send_raises E c \<noteq> None
      \<longrightarrow> \<not> (\<exists>s'. DAList.lookup
                      (active_connections (ws_manager (snd (broadcast E msg x w)))) a = Some s'
                  \<and> c |\<in>| s'))"
proof (intro conjI allI impI)
  show "fst (broadcast E msg x w) = None" by (rule broadcast_returns)
next
  fix a s c
  assume h: "DAList.lookup (active_connections (ws_manager w)) a = Some s \<and> c |\<in>| s \<and>
      \<not> skipped x a \<and> send_raises E c = None \<and>
      (\<forall>b t. DAList.lookup (active_connections (ws_manager w)) b = Some t \<and> c |\<in>| t \<longrightarrow> b = a)"
  then have sole: "\<And>b t. DAList.lookup (active_connections (ws_manager w)) b = Some t \<Longrightarrow> c |\<in>| t \<Longrightarrow> b = a"
    by blast
  from h have own: "DAList.lookup (active_connections (ws_manager w)) a = Some s" "c |\<in>| s"
      "\<not> skipped x a" and ok: "send_raises E c = None" by simp_all
  from delivered_once [OF own sole] ok
  show "filter (\<lambda>(c', m, r). c' = c)
            (drop (length (send_calls w)) (send_calls (snd (broadcast E msg x w)))) =
          [(c, msg, None)]" by simp
next
  fix a s c
  assume h: "DAList.lookup (active_connections (ws_manager w)) a = Some s \<and> c |\<in>| s \<and>
      \<not> skipped x a \<and> send_raises E c \<noteq> None"
  then show "\<not> (\<exists>s'. DAList.lookup
                      (active_connections (ws_manager (snd (broadcast E msg x w)))) a = Some s'
                  \<and> c |\<in>| s')"
    using failing_is_evicted [of w a s c x E msg] by blast
qed

lemma crowd_lookup:
  "DAList.lookup (active_connections (ws_manager crowd)) b =
     (if b = ''carol'' then Some {|4|} else if b = ''bob'' then Some {|3|}
      else if b = ''alice'' then Some {|1, 2|} else None)"
  by (simp add: crowd_def world_init_def DAList.lookup_update)

theorem broadcast_isolates_failures_witness:
  "fst (broadcast flaky (JStr ''event'') None crowd) = None \<and>
   filter (\<lambda>(c', m, r). c' = 1)
     (drop (length (send_calls crowd))
        (send_calls (snd (broadcast flaky (JStr ''event'') None crowd)))) =
     [(1, JStr ''event'', None)] \<and>
   DAList.lookup (active_connections (ws_manager crowd)) ''bob'' = Some {|3|} \<and>
   send_raises flaky 3 = Some RuntimeError \<and>
   \<not> (\<exists>s'. DAList.lookup
           (active_connections (ws_manager (snd (broadcast flaky (JStr ''event'') None crowd))))
           ''bob'' = Some s' \<and> 3 |\<in>| s')"
proof -
  note t = broadcast_isolates_failures [of flaky "JStr ''event''" None crowd]
  have sole: "\<forall>b t. DAList.lookup (active_connections (ws_manager crowd)) b = Some t \<and> 1 |\<in>| t
                \<longrightarrow> b = ''alice''"
    by (auto simp: crowd_lookup split: if_splits)
  have h1: "DAList.lookup (active_connections (ws_manager crowd)) ''alice'' = Some {|1, 2|} \<and>
        1 |\<in>| {|1, 2::nat|} \<and> \<not> skipped None ''alice'' \<and> send_raises flaky 1 = None"
    by (simp add: crowd_lookup skipped_def flaky_def calm_def)
  have h3: "DAList.lookup (active_connections (ws_manager crowd)) ''bob'' = Some {|3|} \<and>
        3 |\<in>| {|3::nat|} \<and> \<not> skipped None ''bob'' \<and> send_raises flaky 3 = Some RuntimeError"
    by (simp add: crowd_lookup skipped_def flaky_def calm_def)
  from t have a: "fst (broadcast flaky (JStr ''event'') None crowd) = None" by (rule conjunct1)
  from t h1 sole have b: "filter (\<lambda>(c', m, r). c' = 1)
     (drop (length (send_calls crowd))
        (send_calls (snd (broadcast flaky (JStr ''event'') None crowd)))) =
     [(1, JStr ''event'', None)]" by blast
  from t h3 have c: "\<not> (\<exists>s'. DAList.lookup
           (active_connections (ws_manager (snd (broadcast flaky (JStr ''event'') None crowd))))
           ''bob'' = Some s' \<and> 3 |\<in>| s')" by blast
  from a b c h3 show ?thesis by simp
qed

text \<open>
  C5, as amended. During \<open>broadcast\<close>, \<open>send_json\<close> is called on exactly the
  connections registered under an identity other than a non-empty \<open>exclude_admin\<close>;
  with \<open>exclude_admin\<close> absent or the empty string nothing is excluded.
\<close>

theorem broadcast_attempts:
  "fst ` set (drop (length (send_calls w)) (send_calls (snd (broadcast E msg x w)))) =
     {c. \<exists>a s. DAList.lookup (active_connections (ws_manager w)) a = Some s \<and> c |\<in>| s \<and>
                \<not> (x = Some a \<and> a \<noteq> [])}"
proof -
  let ?ts = "targets x (DAList.impl_of (active_connections (ws_manager w)))"
  have sk: "\<And>a. skipped x a \<longleftrightarrow> (x = Some a \<and> a \<noteq> [])"
    by (auto simp: skipped_def split: option.splits)
  have "fst ` set (map (\<lambda>(c, a). (c, msg, send_raises E c)) ?ts) = fst ` set ?ts"
    by (simp add: image_image case_prod_unfold)
  also have "fst ` set ?ts =
     {c. \<exists>a s. DAList.lookup (active_connections (ws_manager w)) a = Some s \<and> c |\<in>| s \<and>
                \<not> skipped x a}"
    unfolding set_targets lookup_iff_item by force
  finally show ?thesis by (simp add: new_calls_broadcast sk)
qed

text \<open>
  C5 as stated fails for the empty string: with connection 1 registered under the empty
  identity, \<open>broadcast\<close> excluding the empty identity still sends to connection 1.
\<close>

theorem empty_exclude_excludes_nothing:
  "DAList.lookup (active_connections (ws_manager anonymous)) '''' = Some {|1|} \<and>
   send_calls (snd (broadcast calm (JStr ''event'') (Some '''') anonymous)) =
     [(1, JStr ''event'', None)]"
  by code_simp

text \<open>
  C10. \<open>broadcast\<close> returns, and then every identity of the mapping was an identity
  before the call, with a subset of its former connections, and the count has not grown.
\<close>

theorem broadcast_only_shrinks:
  "fst (broadcast E msg x w) = None \<and>
   (\<forall>a s'. DAList.lookup (active_connections (ws_manager (snd (broadcast E msg x w)))) a = Some s'
      \<longrightarrow> (\<exists>s. DAList.lookup (active_connections (ws_manager w)) a = Some s \<and> s' |\<subseteq>| s)) \<and>
   connection_count (ws_manager (snd (broadcast E msg x w))) \<le> connection_count (ws_manager w)"
  using cleanup_shrinks [of "filter (\<lambda>(c, a). send_raises E c \<noteq> None)
                (targets x (DAList.impl_of (active_connections (ws_manager w))))" "ws_manager w"]
  by (simp add: broadcast_returns manager_after_broadcast cleanup_count_le shrinks_def)

theorem broadcast_only_shrinks_witness:
  "DAList.lookup (active_connections (ws_manager (snd (broadcast flaky (JStr ''event'') None crowd))))
     ''alice'' = Some {|1, 2|} \<and>
   (\<exists>s. DAList.lookup (active_connections (ws_manager crowd)) ''alice'' = Some s \<and> {|1, 2|} |\<subseteq>| s) \<and>
   connection_count (ws_manager (snd (broadcast flaky (JStr ''event'') None crowd))) \<le> 4"
proof -
  note t = broadcast_only_shrinks [of flaky "JStr ''event''" None crowd]
  have h: "DAList.lookup
      (active_connections (ws_manager (snd (broadcast flaky (JStr ''event'') None crowd))))
      ''alice'' = Some {|1, 2|}"
    by code_simp
  have n: "connection_count (ws_manager crowd) = 4" by (simp add: crowd_def world_init_def)
  from t h have "\<exists>s. DAList.lookup (active_connections (ws_manager crowd)) ''alice'' = Some s \<and>
      {|1, 2|} |\<subseteq>| s" by blast
  moreover from t n
  have "connection_count (ws_manager (snd (broadcast flaky (JStr ''event'') None crowd))) \<le> 4"
    by simp
  ultimately show ?thesis using h by simp
qed

section \<open>Broadcast among other tasks\<close>

text \<open>When no other task runs during the sends, the two models of \<open>broadcast\<close> agree.\<close>

lemma live_connections_quiet:
  "live_connections E (\<lambda>_. []) msg a cs (disc, removed, w) =
     (case broadcast_connections E msg a cs (disc, w) of (disc', w') \<Rightarrow> (disc', removed, w'))"
proof (induction cs arbitrary: disc w)
  case Nil
  show ?case by simp
next
  case (Cons c cs)
  show ?case
    by (simp add: send_json_await_def send_json_def Cons.IH split: option.splits)
qed

lemma live_items_quiet:
  assumes "DAList.impl_of (active_connections (ws_manager w)) = items" and "p \<le> length items"
  shows "live_items E (\<lambda>_. []) msg x \<lparr>di_used = length items, di_pos = p\<rparr> (disc, False, w) =
           (case broadcast_items E msg x (drop p items) (disc, w) of
              (disc', w') \<Rightarrow> Some (None, disc', w'))"
  using assms
proof (induction "length items - p" arbitrary: p disc w)
  case 0
  then have "p = length items" by simp
  with "0.prems"(1) show ?case
    by (subst live_items.simps) (simp add: dictiter_next_def)
next
  case (Suc n)
  then have lt: "p < length items" by simp
  obtain a s where as: "items ! p = (a, s)" by (cases "items ! p")
  from lt as have dr: "drop p items = (a, s) # drop (Suc p) items"
    by (simp add: Cons_nth_drop_Suc [symmetric])
  have n: "n = length items - Suc p" using Suc.hyps(2) by simp
  from lt have le: "Suc p \<le> length items" by simp
  have nx: "dictiter_next \<lparr>di_used = length items, di_pos = p\<rparr> False
              (active_connections (ws_manager w)) =
        Item (a, s) \<lparr>di_used = length items, di_pos = Suc p\<rparr>"
    using lt as Suc.prems(1) by (simp add: dictiter_next_def)
  show ?case
  proof (cases "skipped x a")
    case True
    with nx Suc.hyps(1) [OF n Suc.prems(1) le, of disc] show ?thesis
      by (subst live_items.simps) (simp add: dr)
  next
    case False
    let ?st = "broadcast_connections E msg a (sorted_list_of_fset s) (disc, w)"
    obtain disc' w' where st: "?st = (disc', w')" by (cases ?st)
    then have "ws_manager w' = ws_manager w"
      by (auto simp: broadcast_connections_eq)
    with Suc.prems(1) have "DAList.impl_of (active_connections (ws_manager w')) = items" by simp
    from Suc.hyps(1) [OF n this le, of disc'] nx False st show ?thesis
      by (subst live_items.simps) (simp add: dr live_connections_quiet)
  qed
qed

lemma broadcast_live_quiet:
  "broadcast_live E (\<lambda>_. []) msg x w = Some (broadcast E msg x w)"
  using live_items_quiet [of w "DAList.impl_of (active_connections (ws_manager w))" 0 E msg x "[]"]
  by (simp add: broadcast_live_def broadcast_def dict_iter_def split: prod.splits)

text \<open>
  C8. The claim: \<open>broadcast\<close> iterates over a copy of the whole mapping taken before the
  fan-out, so that a \<open>connect\<close> or \<open>disconnect\<close> of another task during the pass cannot
  disturb the iteration. The code iterates the dictionary itself and copies only each
  set. With \<open>alice\<close>, \<open>bob\<close> and \<open>carol\<close> registered, when \<open>dave\<close> connects while the
  send to connection 1 is suspended: the next step of the outer loop raises
  \<open>RuntimeError\<close>, \<open>broadcast\<close> raises it to its caller, and connections 3 and 4 get no
  send call.
\<close>

theorem live_iteration_raises_on_connect:
  "map_option fst (broadcast_live calm newcomer (JStr ''event'') None crowd) =
     Some (Some RuntimeError) \<and>
   map_option (\<lambda>r. map fst (send_calls (snd r)))
     (broadcast_live calm newcomer (JStr ''event'') None crowd) = Some [1, 9, 2] \<and>
   get_connected_admins (ws_manager crowd) = [''alice'', ''bob'', ''carol''] \<and>
   DAList.lookup (active_connections (ws_manager crowd)) ''bob'' = Some {|3|} \<and>
   DAList.lookup (active_connections (ws_manager crowd)) ''carol'' = Some {|4|}"
  by code_simp

text \<open>
  The same when a key is deleted: \<open>bob\<close> disconnects while the send to connection 1 is
  suspended, and connection 4 gets no send call. When the deletion is made up for by an
  insertion the model does not determine the run.
\<close>

lemma live_iteration_raises_on_disconnect:
  "map_option fst (broadcast_live calm leaver (JStr ''event'') None crowd) =
     Some (Some RuntimeError) \<and>
   map_option (\<lambda>r. map fst (send_calls (snd r)))
     (broadcast_live calm leaver (JStr ''event'') None crowd) = Some [1, 2]"
  by code_simp

lemma live_iteration_after_swap:
  "broadcast_live calm swap (JStr ''event'') None crowd = None"
  by code_simp

section \<open>The session handler: entering and leaving the receive loop\<close>

text \<open>
  After \<open>accept\<close>, \<open>connect\<close> registers the connection and makes one send call, the
  acknowledgment; a ping is answered by one send call, the pong, on the same connection.
\<close>

lemma connect_registers_then_acknowledges:
  "accept_raises E ws = None \<Longrightarrow>
   fst (connect E ws a w) = None \<and>
   send_calls (snd (connect E ws a w)) =
     send_calls w @ [(ws, connection_established (clock E (now_reads w)), send_raises E ws)]"
  by (auto simp: connect_def accept_def isoformat_now_def Let_def send_personal_message_def
        send_json_def DAList.lookup_update split: option.splits)

lemma ping_gets_one_pong:
  "json_loads E data = Inr (JObj kvs) \<Longrightarrow> map_of kvs ''type'' = Some (JStr ''ping'') \<Longrightarrow>
   send_calls (snd (handle_message E ws data w)) =
     send_calls w @ [(ws, pong (clock E (now_reads w)), send_raises E ws)]"
  by (auto simp: handle_message_def handle_message_body_def message_get_type_def
        isoformat_now_def send_json_def split: option.splits)


text \<open>
  A text on which \<open>json.loads\<close> raises \<open>JSONDecodeError\<close> is handled without an
  exception and leaves the world as it was (no send call, the manager unchanged), and the
  loop goes on with the next inbound message.
\<close>

lemma json_decode_error_ignored:
  "json_loads E data = Inl JSONDecodeError \<Longrightarrow>
   handle_message E ws data w = (None, w) \<and>
   receive_loop E ws (Inr data # inbound) w = receive_loop E ws inbound w"
  by (simp add: handle_message_def handle_message_body_def)

text \<open>
  Any other exception of \<open>json.loads\<close> passes the handler
  \<open>except json.JSONDecodeError\<close> and leaves the loop.
\<close>

lemma other_parse_error_leaves_loop:
  "json_loads E data = Inl e \<Longrightarrow> e \<noteq> JSONDecodeError \<Longrightarrow>
   receive_loop E ws (Inr data # inbound) w = (Raised e, w)"
  by (simp add: handle_message_def handle_message_body_def)

text \<open>
  C7. The claim: a malformed (non-parseable) inbound message is silently ignored and the
  receive loop continues. The code at a session of \<open>admin\<close> on connection 7 that
  receives the text \<open>'[' * 1000\<close> and then a ping: \<open>json.loads\<close> raises
  \<open>RecursionError\<close>, which \<open>except json.JSONDecodeError\<close> does not catch; the handler
  \<open>except Exception\<close> closes the socket with code 1008 and the endpoint returns. The
  ping is never read: the only send call is the acknowledgment of \<open>connect\<close>.
\<close>

theorem unparseable_message_ends_session:
  "let (out, w) = websocket_endpoint calm 7 ''good''
                    [Inr (replicate 1000 (CHR ''['')), Inr ''{\"type\": \"ping\"}''] world_init
   in json_loads calm (replicate 1000 (CHR ''['')) = Inl RecursionError \<and>
      out = Returned \<and>
      closed w = [(7, 1008, ''Authentication failed'')] \<and>
      send_calls w = [(7, connection_established ''2024-01-01T00:00:00'', None)] \<and>
      DAList.impl_of (active_connections (ws_manager w)) = [(''admin'', {|7|})]"
  by code_simp

text \<open>
  C4. The claim: on every way out of the receive loop of a registered session the handler
  calls \<open>disconnect\<close> once. The code at a session of \<open>admin\<close> on connection 7 whose
  first inbound text is the JSON array \<open>[]\<close>: \<open>message.get\<close> raises
  \<open>AttributeError\<close>, only the handler \<open>except Exception\<close> runs, the endpoint returns,
  and connection 7 is still registered with the count at 1.
\<close>

theorem error_exit_leaves_registration:
  "let (out, w) = websocket_endpoint calm 7 ''good'' [Inr ''[]''] world_init
   in out = Returned \<and>
      DAList.impl_of (active_connections (ws_manager w)) = [(''admin'', {|7|})] \<and>
      get_connection_count (ws_manager w) = 1 \<and>
      closed w = [(7, 1008, ''Authentication failed'')]"
  by code_simp

end
